theory Spec2Isabelle
  imports Complex_Main
begin

section \<open>Strings\<close>

text \<open>
  A JavaScript string is modelled as a \<^typ>\<open>string\<close>: the list of its characters, with a
  character outside ASCII written as the bytes of its UTF-8 encoding. The command keywords
  are ASCII, and an ASCII character never occurs inside the encoding of another character,
  so searching for a keyword and cutting at spaces give the same answers on this
  representation as on the code units of the source's strings. Case conversion is the
  ASCII one: letters \<open>A\<close> to \<open>Z\<close> and \<open>a\<close> to \<open>z\<close> are exchanged, every other character stays.
  The source's \<open>toLowerCase\<close> also maps letters outside ASCII (the Kelvin sign becomes
  \<open>k\<close>), and its \<open>trim\<close> also removes white space outside ASCII (such as U+00A0); the
  model agrees with the source on transcripts made of ASCII characters. The general
  properties below do not depend on how case is converted or white space trimmed: only the
  evaluations at concrete transcripts do.
\<close>

definition upperLetters :: string where
  "upperLetters = ''ABCDEFGHIJKLMNOPQRSTUVWXYZ''"

definition lowerLetters :: string where
  "lowerLetters = ''abcdefghijklmnopqrstuvwxyz''"

definition lowerChar :: "char \<Rightarrow> char" where
  "lowerChar c = (case map_of (zip upperLetters lowerLetters) c of Some l \<Rightarrow> l | None \<Rightarrow> c)"

definition upperChar :: "char \<Rightarrow> char" where
  "upperChar c = (case map_of (zip lowerLetters upperLetters) c of Some u \<Rightarrow> u | None \<Rightarrow> c)"

text \<open>\<open>String.prototype.toLowerCase\<close> and \<open>toUpperCase\<close>.\<close>

definition toLowerCase :: "string \<Rightarrow> string" where
  "toLowerCase s = map lowerChar s"

definition toUpperCase :: "string \<Rightarrow> string" where
  "toUpperCase s = map upperChar s"

text \<open>\<open>s.startsWith(p)\<close>: \<open>p\<close> is an initial segment of \<open>s\<close>.\<close>

fun startsWith :: "string \<Rightarrow> string \<Rightarrow> bool" where
  "startsWith s [] = True"
| "startsWith [] (p # ps) = False"
| "startsWith (c # cs) (p # ps) = (c = p \<and> startsWith cs ps)"

text \<open>\<open>s.includes(sub)\<close>: \<open>sub\<close> occurs in \<open>s\<close> at some position, tried from the left.\<close>

fun includes_str :: "string \<Rightarrow> string \<Rightarrow> bool" where
  "includes_str [] sub = (sub = [])"
| "includes_str (c # cs) sub = (startsWith (c # cs) sub \<or> includes_str cs sub)"

text \<open>
  \<open>s.split(' ')\<close>: the pieces between single space characters. The empty string gives one
  empty piece, and two adjacent spaces give an empty piece between them.
\<close>

fun split_space :: "string \<Rightarrow> string list" where
  "split_space [] = [[]]"
| "split_space (c # cs) =
     (if c = CHR '' '' then [] # split_space cs
      else (case split_space cs of
              [] \<Rightarrow> [[c]]
            | w # ws \<Rightarrow> (c # w) # ws))"

text \<open>\<open>s.trim()\<close>: white space removed at both ends. The six ASCII white-space characters
  are modelled.\<close>

definition isWhiteSpace :: "char \<Rightarrow> bool" where
  "isWhiteSpace c = (c \<in> set [CHR '' '', CHR 0x09, CHR 0x0A, CHR 0x0B, CHR 0x0C, CHR 0x0D])"

definition trim :: "string \<Rightarrow> string" where
  "trim s = rev (dropWhile isWhiteSpace (rev (dropWhile isWhiteSpace s)))"

text \<open>\<open>xs.join(sep)\<close>.\<close>

fun join :: "string \<Rightarrow> string list \<Rightarrow> string" where
  "join sep [] = []"
| "join sep [x] = x"
| "join sep (x # y # ys) = x @ sep @ join sep (y # ys)"

text \<open>
  The pictographs that open the status messages, as UTF-8, as the first and the third
  iteration store them. The file of the second iteration (\<open>src/App.tsx\<close>) stores its
  pictographs in a mis-decoded form: the bytes EF A3 BF C3 BC C3 A9 C3 98 where the target
  stands here, EF A3 BF C3 BC C3 A9 C2 A7 for the microphone and E2 80 9A C3 BA C3 96 for
  the check mark. The text after the pictograph is the same in all iterations.
\<close>

definition glyph_target :: string where
  "glyph_target = [CHR 0xF0, CHR 0x9F, CHR 0x8E, CHR 0xAF]"

definition glyph_microphone :: string where
  "glyph_microphone = [CHR 0xF0, CHR 0x9F, CHR 0x8E, CHR 0xA4]"

definition glyph_check :: string where
  "glyph_check = [CHR 0xE2, CHR 0x9C, CHR 0x85]"

definition glyph_question :: string where
  "glyph_question = [CHR 0xE2, CHR 0x9D, CHR 0x93]"

definition glyph_muted :: string where
  "glyph_muted = [CHR 0xF0, CHR 0x9F, CHR 0x94, CHR 0x87]"

definition glyph_warning :: string where
  "glyph_warning = [CHR 0xE2, CHR 0x9A, CHR 0xA0, CHR 0xEF, CHR 0xB8, CHR 0x8F]"

definition glyph_palette :: string where
  "glyph_palette = [CHR 0xF0, CHR 0x9F, CHR 0x8E, CHR 0xA8]"


section \<open>The keyword-matching application (component \<open>AircraftCrewAvatar\<close>)\<close>

text \<open>
  The component keeps three pieces of state (\<open>avatarState\<close>, \<open>currentStatus\<close>,
  \<open>isSpeaking\<close>), the array \<open>voiceCommands\<close> and the reference \<open>recognitionRef\<close>. Every
  handler is a function from the state to the new state and the list of requests it makes
  to the browser (utterances queued, timers set, the recognition engine started or
  stopped). The first iteration of the application and the second (\<open>src/App.tsx\<close>) have
  these handlers line by line; they differ in the bytes of the status pictographs only.
\<close>

record VoiceCommand =
  vc_text :: string         \<comment> \<open>the field \<open>text\<close>: the keyword\<close>
  vc_animation :: string    \<comment> \<open>the field \<open>animation\<close>: the animation tag\<close>

record AvatarState =
  isListening :: bool
  currentAnimation :: string
  lipSyncActive :: bool
  recognizedText :: string

record AppState =
  avatarState :: AvatarState
  currentStatus :: string
  isSpeaking :: bool
  commands :: "VoiceCommand list"   \<comment> \<open>the array object bound to \<open>voiceCommands\<close>\<close>
  recognitionRef :: bool            \<comment> \<open>\<open>recognitionRef.current\<close> holds an engine\<close>

text \<open>A voice of the synthesis engine, and the utterance handed to it.\<close>

record Voice =
  voice_name :: string
  voice_lang :: string

record Utterance =
  utt_text :: string
  utt_voice :: "Voice option"

datatype TimerCallback = LipSyncOff | AnimationIdle

datatype Effect =
    Speak Utterance                 \<comment> \<open>\<open>speechSynthesis.speak(utterance)\<close>\<close>
  | SetTimeout TimerCallback nat    \<comment> \<open>\<open>setTimeout(callback, ms)\<close>\<close>
  | RecognitionStart                \<comment> \<open>\<open>recognitionRef.current.start()\<close>\<close>
  | RecognitionStop                 \<comment> \<open>\<open>recognitionRef.current.stop()\<close>\<close>

definition voiceCommands :: "VoiceCommand list" where
  "voiceCommands =
    [\<lparr>vc_text = ''turbulence'', vc_animation = ''alert''\<rparr>,
     \<lparr>vc_text = ''seatbelt'', vc_animation = ''instruction''\<rparr>,
     \<lparr>vc_text = ''landing'', vc_animation = ''announcement''\<rparr>,
     \<lparr>vc_text = ''takeoff'', vc_animation = ''preparation''\<rparr>,
     \<lparr>vc_text = ''emergency'', vc_animation = ''urgent''\<rparr>,
     \<lparr>vc_text = ''welcome'', vc_animation = ''greeting''\<rparr>,
     \<lparr>vc_text = ''safety'', vc_animation = ''demonstration''\<rparr>]"

text \<open>The state after the first render; \<open>supported\<close> says whether the browser has a
  speech-recognition engine, so that \<open>setupVoiceRecognition\<close> stored one.\<close>

definition initialState :: "bool \<Rightarrow> AppState" where
  "initialState supported =
    \<lparr>avatarState = \<lparr>isListening = False, currentAnimation = ''idle'',
                     lipSyncActive = False, recognizedText = ''''\<rparr>,
     currentStatus = ''Ready for voice commands'',
     isSpeaking = False,
     commands = voiceCommands,
     recognitionRef = supported\<rparr>"

definition performLipSync :: "string \<Rightarrow> AppState \<Rightarrow> AppState \<times> Effect list" where
  "performLipSync txt st =
    (st\<lparr>avatarState := (avatarState st)\<lparr>lipSyncActive := True\<rparr>\<rparr>,
     [SetTimeout LipSyncOff (length txt * 150)])"

definition performAnimation :: "string \<Rightarrow> AppState \<Rightarrow> AppState \<times> Effect list" where
  "performAnimation animationType st =
    (st\<lparr>avatarState := (avatarState st)\<lparr>currentAnimation := animationType\<rparr>\<rparr>,
     [SetTimeout AnimationIdle 2500])"

text \<open>The two timer callbacks.\<close>

definition lipSyncTimeout :: "AppState \<Rightarrow> AppState" where
  "lipSyncTimeout st = st\<lparr>avatarState := (avatarState st)\<lparr>lipSyncActive := False\<rparr>\<rparr>"

definition animationTimeout :: "AppState \<Rightarrow> AppState" where
  "animationTimeout st = st\<lparr>avatarState := (avatarState st)\<lparr>currentAnimation := ''idle''\<rparr>\<rparr>"

definition instructions :: "(string \<times> string) list" where
  "instructions =
    [(''turbulence'', ''Ladies and gentlemen, we are experiencing some turbulence. Please return to your seats and fasten your seatbelts immediately.''),
     (''seatbelt'', ''The seatbelt sign has been turned on. Please fasten your seatbelts and return your seats to the upright position.''),
     (''landing'', ''We are beginning our descent for landing. Please ensure your seat backs and tray tables are in their upright position.''),
     (''takeoff'', ''Ladies and gentlemen, we are preparing for takeoff. Please ensure your seats are in the upright position.''),
     (''emergency'', ''This is an emergency announcement. Please remain calm and follow the instructions of the cabin crew immediately.''),
     (''welcome'', ''Welcome aboard this flight. We hope you have a pleasant journey with us today.''),
     (''safety'', ''Please review the safety information card in your seat pocket and listen carefully to our safety demonstration.'')]"

text \<open>\<open>instructions[command] || 'Command acknowledged.'\<close>: a missing key and an empty text both
  give the default. (The object's own keys are modelled; the function is only called with
  the \<open>text\<close> of a table entry.)\<close>

definition getInstructionForCommand :: "string \<Rightarrow> string" where
  "getInstructionForCommand command =
    (case map_of instructions command of
       None \<Rightarrow> ''Command acknowledged.''
     | Some s \<Rightarrow> if s = [] then ''Command acknowledged.'' else s)"

definition isProfessionalVoice :: "Voice \<Rightarrow> bool" where
  "isProfessionalVoice voice =
    (includes_str (voice_name voice) ''David'' \<or>
     includes_str (voice_name voice) ''Mark'' \<or>
     (startsWith (voice_lang voice) ''en'' \<and>
      includes_str (toLowerCase (voice_name voice)) ''male''))"

text \<open>\<open>speak\<close>; \<open>voices\<close> is what \<open>speechSynthesis.getVoices()\<close> returns. The utterance's rate,
  pitch and volume are the constants 0.9, 1.0 and 0.8 and are not recorded.\<close>

definition speak :: "Voice list \<Rightarrow> string \<Rightarrow> AppState \<Rightarrow> AppState \<times> Effect list" where
  "speak voices txt st =
    (st\<lparr>isSpeaking := True\<rparr>,
     [Speak \<lparr>utt_text = txt, utt_voice = find isProfessionalVoice voices\<rparr>])"

text \<open>The utterance's \<open>onend\<close> callback. No other callback is set on the utterance.\<close>

definition utterance_onend :: "AppState \<Rightarrow> AppState" where
  "utterance_onend st =
    st\<lparr>isSpeaking := False, currentStatus := glyph_check @ '' Announcement completed''\<rparr>"

text \<open>The callbacks of the recognition engine.\<close>

definition onstart :: "AppState \<Rightarrow> AppState \<times> Effect list" where
  "onstart st =
    (st\<lparr>avatarState := (avatarState st)\<lparr>isListening := True\<rparr>,
        currentStatus := glyph_microphone @ '' Listening for command...''\<rparr>, [])"

text \<open>\<open>voiceCommands.find(cmd => text.includes(cmd.text))\<close>\<close>

definition matchedCommand :: "AppState \<Rightarrow> string \<Rightarrow> VoiceCommand option" where
  "matchedCommand st txt = find (\<lambda>cmd. includes_str txt (vc_text cmd)) (commands st)"

text \<open>\<open>onresult\<close>; \<open>transcript\<close> is \<open>event.results[last][0].transcript\<close>.\<close>

definition onresult :: "Voice list \<Rightarrow> string \<Rightarrow> AppState \<Rightarrow> AppState \<times> Effect list" where
  "onresult voices transcript st =
    (let txt = toLowerCase transcript;
         st1 = st\<lparr>avatarState := (avatarState st)\<lparr>recognizedText := txt\<rparr>\<rparr>
     in case matchedCommand st1 txt of
          None \<Rightarrow> (st1, [])
        | Some cmd \<Rightarrow>
            (let st2 = st1\<lparr>currentStatus :=
                         glyph_target @ '' Executing: '' @ toUpperCase (vc_text cmd)\<rparr>;
                 (st3, e3) = performLipSync (vc_text cmd) st2;
                 (st4, e4) = performAnimation (vc_animation cmd) st3;
                 (st5, e5) = speak voices (getInstructionForCommand (vc_text cmd)) st4
             in (st5, e3 @ e4 @ e5)))"

definition onerror :: "string \<Rightarrow> AppState \<Rightarrow> AppState \<times> Effect list" where
  "onerror err st =
    (st\<lparr>avatarState := (avatarState st)\<lparr>isListening := False\<rparr>,
        currentStatus := glyph_microphone @ '' Voice recognition error. Please try again.''\<rparr>,
     [])"

text \<open>\<open>onend\<close> reads \<open>isSpeaking\<close> through the closure in which the callback was created;
  \<open>speakingSeen\<close> is the value it finds there.\<close>

definition onend :: "bool \<Rightarrow> AppState \<Rightarrow> AppState \<times> Effect list" where
  "onend speakingSeen st =
    (let st1 = st\<lparr>avatarState := (avatarState st)\<lparr>isListening := False\<rparr>\<rparr>
     in if \<not> speakingSeen then (st1\<lparr>currentStatus := ''Ready for voice commands''\<rparr>, [])
        else (st1, []))"

text \<open>The button handlers.\<close>

definition startListening :: "AppState \<Rightarrow> AppState \<times> Effect list" where
  "startListening st =
    (if recognitionRef st \<and> \<not> isListening (avatarState st) then (st, [RecognitionStart])
     else (st, []))"

definition stopListening :: "AppState \<Rightarrow> AppState \<times> Effect list" where
  "stopListening st =
    (if recognitionRef st \<and> isListening (avatarState st) then (st, [RecognitionStop])
     else (st, []))"

definition testCommand :: "Voice list \<Rightarrow> string \<Rightarrow> AppState \<Rightarrow> AppState \<times> Effect list" where
  "testCommand voices commandText st =
    (case find (\<lambda>cmd. vc_text cmd = commandText) (commands st) of
       None \<Rightarrow> (st, [])
     | Some cmd \<Rightarrow>
         (let st1 = st\<lparr>currentStatus :=
                      glyph_target @ '' Testing: '' @ toUpperCase (vc_text cmd)\<rparr>;
              (st2, e2) = performLipSync (vc_text cmd) st1;
              (st3, e3) = performAnimation (vc_animation cmd) st2;
              (st4, e4) = speak voices (getInstructionForCommand (vc_text cmd)) st3
          in (st4, e2 @ e3 @ e4)))"

text \<open>
  What can happen to the mounted component: a click on one of its buttons (a disabled
  button takes no click), a callback of the recognition engine, an event of a queued
  utterance, a timer that fires. The recognition callbacks were created in the effect that
  runs once after the first render, so \<open>onend\<close> sees the \<open>isSpeaking\<close> of that render,
  \<open>False\<close>. An utterance that fails raises \<open>error\<close> and not \<open>end\<close>; no callback is set for it.
\<close>

datatype Event =
    ClickStart
  | ClickStop
  | ClickTest string
  | RecStarted
  | RecResult string
  | RecError string
  | RecEnded
  | UtteranceEnd
  | UtteranceError
  | TimerFired TimerCallback

fun step :: "Voice list \<Rightarrow> Event \<Rightarrow> AppState \<Rightarrow> AppState \<times> Effect list" where
  "step voices ClickStart st =
     (if isListening (avatarState st) \<or> isSpeaking st then (st, []) else startListening st)"
| "step voices ClickStop st =
     (if \<not> isListening (avatarState st) then (st, []) else stopListening st)"
| "step voices (ClickTest commandText) st =
     (if isSpeaking st \<or> isListening (avatarState st) then (st, [])
      else testCommand voices commandText st)"
| "step voices RecStarted st = onstart st"
| "step voices (RecResult transcript) st = onresult voices transcript st"
| "step voices (RecError err) st = onerror err st"
| "step voices RecEnded st = onend False st"
| "step voices UtteranceEnd st = (utterance_onend st, [])"
| "step voices UtteranceError st = (st, [])"
| "step voices (TimerFired LipSyncOff) st = (lipSyncTimeout st, [])"
| "step voices (TimerFired AnimationIdle) st = (animationTimeout st, [])"

text \<open>The state after a sequence of events.\<close>

definition run :: "Voice list \<Rightarrow> Event list \<Rightarrow> AppState \<Rightarrow> AppState" where
  "run voices evs st = foldl (\<lambda>s ev. fst (step voices ev s)) st evs"


section \<open>The animated-head application (the third iteration, component \<open>App\<close>)\<close>

text \<open>
  This iteration has its own command table (six entries, each with its instruction text and
  an optional gesture), matches a transcript word by word, and speaks through the animated
  head when there is one. Its names carry the suffix \<open>_th\<close> where they would clash with the
  names above.
\<close>

record VoiceCommand_th =
  command :: string
  instruction :: string
  gesture :: "string option"

text \<open>What \<open>avatarRef.current\<close> holds once an animated head is loaded.\<close>

record Head =
  has_speakText :: bool       \<comment> \<open>\<open>typeof speakText === 'function'\<close>\<close>
  has_stopSpeaking :: bool    \<comment> \<open>\<open>typeof stopSpeaking === 'function'\<close>\<close>

record AppState_th =
  isListening_th :: bool
  currentStatus_th :: string
  speechRecognition :: bool   \<comment> \<open>the state holds a recognition engine\<close>
  isAvatarReady :: bool
  isSpeaking_th :: bool
  currentMessage :: string
  loadingProgress :: nat
  avatarRef :: "Head option"
  commands_th :: "VoiceCommand_th list"   \<comment> \<open>the array object bound to \<open>voiceCommands\<close>\<close>

datatype Effect_th =
    PlayGesture string nat      \<comment> \<open>\<open>avatarRef.current.playGesture(name, ms)\<close>\<close>
  | SetMood string              \<comment> \<open>\<open>avatarRef.current.setMood(mood)\<close>\<close>
  | SpeakText string            \<comment> \<open>\<open>avatarRef.current.speakText(text, ...)\<close>\<close>
  | Speak_th string             \<comment> \<open>\<open>speechSynthesis.speak\<close> of an utterance with this text\<close>
  | SynthesisCancel             \<comment> \<open>\<open>speechSynthesis.cancel()\<close>\<close>
  | HeadStopSpeaking            \<comment> \<open>\<open>avatarRef.current.stopSpeaking()\<close>\<close>
  | RecognitionStart_th         \<comment> \<open>\<open>speechRecognition.start()\<close>\<close>
  | PlayAudio string            \<comment> \<open>playing the audio file at a path\<close>

definition voiceCommands_th :: "VoiceCommand_th list" where
  "voiceCommands_th =
    [\<lparr>command = ''turbulence'',
      instruction = ''Ladies and gentlemen, we are experiencing some turbulence. Please return to your seats and fasten your seatbelts immediately for your safety.'',
      gesture = Some ''wave''\<rparr>,
     \<lparr>command = ''seatbelt'',
      instruction = ''The seatbelt sign has been turned on. Please fasten your seatbelts and return your seats to the upright position.'',
      gesture = Some ''point''\<rparr>,
     \<lparr>command = ''landing'',
      instruction = ''We are beginning our descent for landing. Please ensure your seat backs and tray tables are in their upright position.'',
      gesture = Some ''explain''\<rparr>,
     \<lparr>command = ''safety'',
      instruction = ''Please review the safety information card in your seat pocket and listen carefully to our safety demonstration.'',
      gesture = Some ''present''\<rparr>,
     \<lparr>command = ''welcome'',
      instruction = ''Welcome aboard this flight. We hope you have a pleasant journey with us today.'',
      gesture = Some ''greet''\<rparr>,
     \<lparr>command = ''emergency'',
      instruction = ''This is an emergency announcement. Please remain calm and follow the instructions of the cabin crew immediately.'',
      gesture = Some ''alert''\<rparr>]"

definition initialState_th :: "bool \<Rightarrow> AppState_th" where
  "initialState_th supported =
    \<lparr>isListening_th = False,
     currentStatus_th = ''Loading professional avatar system...'',
     speechRecognition = supported,
     isAvatarReady = False,
     isSpeaking_th = False,
     currentMessage = '''',
     loadingProgress = 0,
     avatarRef = None,
     commands_th = voiceCommands_th\<rparr>"

text \<open>\<open>performGesture\<close>: the request made to the head for a gesture name; a failure of the
  head is caught and logged there, and changes nothing.\<close>

definition performGesture :: "AppState_th \<Rightarrow> string \<Rightarrow> Effect_th list" where
  "performGesture st g =
    (case avatarRef st of
       None \<Rightarrow> []
     | Some head \<Rightarrow>
         if g = ''wave'' then [PlayGesture ''wave'' 2000]
         else if g = ''point'' then [PlayGesture ''point'' 1500]
         else if g = ''explain'' then [PlayGesture ''explain'' 3000]
         else if g = ''present'' then [PlayGesture ''present'' 2500]
         else if g = ''greet'' then [PlayGesture ''greet'' 2000]
         else if g = ''alert'' then [SetMood ''alert'']
         else [])"

definition speak_th :: "string \<Rightarrow> AppState_th \<Rightarrow> AppState_th \<times> Effect_th list" where
  "speak_th txt st = (st\<lparr>isSpeaking_th := True\<rparr>, [Speak_th txt])"

definition utterance_onend_th :: "AppState_th \<Rightarrow> AppState_th" where
  "utterance_onend_th st =
    st\<lparr>isSpeaking_th := False, currentStatus_th := glyph_check @ '' Announcement completed''\<rparr>"

text \<open>
  \<open>executeCommand\<close> is asynchronous. The definition below is its run up to the point where it
  waits for the head to finish speaking; \<open>ready\<close> is the \<open>isAvatarReady\<close> that the closure
  of the caller holds. The two ways the wait can end follow: the head is done, or the call
  failed and the \<open>catch\<close> branch speaks through the browser.
\<close>

definition executeCommand ::
    "bool \<Rightarrow> VoiceCommand_th \<Rightarrow> AppState_th \<Rightarrow> AppState_th \<times> Effect_th list" where
  "executeCommand ready cmd st =
    (if \<not> ready then (st, [])
     else
       (let st1 = st\<lparr>currentStatus_th :=
                    glyph_target @ '' Executing: '' @ toUpperCase (command cmd)\<rparr>
        in case avatarRef st1 of
             None \<Rightarrow> speak_th (instruction cmd) st1
           | Some head \<Rightarrow>
               if has_speakText head then
                 (st1\<lparr>isSpeaking_th := True\<rparr>,
                  (case gesture cmd of
                     None \<Rightarrow> []
                   | Some g \<Rightarrow> if g = [] then [] else performGesture st1 g)
                  @ [SpeakText (instruction cmd)])
               else speak_th (instruction cmd) st1))"

definition executeCommand_done :: "VoiceCommand_th \<Rightarrow> AppState_th \<Rightarrow> AppState_th" where
  "executeCommand_done cmd st =
    st\<lparr>isSpeaking_th := False,
       currentStatus_th :=
         glyph_check @ '' '' @ toUpperCase (command cmd) @ '' announcement completed''\<rparr>"

definition executeCommand_failed ::
    "VoiceCommand_th \<Rightarrow> AppState_th \<Rightarrow> AppState_th \<times> Effect_th list" where
  "executeCommand_failed cmd st = speak_th (instruction cmd) st"

text \<open>The test of \<open>onresult\<close> on one word of the transcript and one command.\<close>

definition wordMatches :: "string \<Rightarrow> string \<Rightarrow> bool" where
  "wordMatches cmdName word =
    (includes_str word cmdName \<or>
     includes_str cmdName word \<or>
     (length word > 3 \<and> includes_str cmdName word))"

definition matchedCommand_th :: "AppState_th \<Rightarrow> string \<Rightarrow> VoiceCommand_th option" where
  "matchedCommand_th st transcript =
    find (\<lambda>cmd. list_ex (wordMatches (command cmd)) (split_space transcript)) (commands_th st)"

definition notRecognized :: "AppState_th \<Rightarrow> string \<Rightarrow> string" where
  "notRecognized st transcript =
    glyph_question @ '' Command \"'' @ transcript @ ''\" not recognized. Try: '' @
    join '', '' (map command (commands_th st))"

text \<open>\<open>onresult\<close>; \<open>raw\<close> is \<open>event.results[0][0].transcript\<close>.\<close>

definition onresult_th ::
    "bool \<Rightarrow> string \<Rightarrow> AppState_th \<Rightarrow> AppState_th \<times> Effect_th list" where
  "onresult_th ready raw st =
    (let transcript = trim (toLowerCase raw)
     in case matchedCommand_th st transcript of
          Some cmd \<Rightarrow> executeCommand ready cmd st
        | None \<Rightarrow> (st\<lparr>currentStatus_th := notRecognized st transcript\<rparr>, []))"

definition onerror_th :: "string \<Rightarrow> AppState_th \<Rightarrow> AppState_th \<times> Effect_th list" where
  "onerror_th err st =
    (st\<lparr>isListening_th := False,
        currentStatus_th := glyph_microphone @ '' Voice recognition error. Please try again.''\<rparr>,
     [])"

definition onend_th :: "AppState_th \<Rightarrow> AppState_th \<times> Effect_th list" where
  "onend_th st = (st\<lparr>isListening_th := False\<rparr>, [])"

definition startListening_th :: "AppState_th \<Rightarrow> AppState_th \<times> Effect_th list" where
  "startListening_th st =
    (if speechRecognition st \<and> \<not> isListening_th st then
       (st\<lparr>isListening_th := True,
           currentStatus_th := glyph_microphone @ '' Listening for command...''\<rparr>,
        [RecognitionStart_th])
     else (st, []))"

definition stopSpeaking :: "AppState_th \<Rightarrow> AppState_th \<times> Effect_th list" where
  "stopSpeaking st =
    (st\<lparr>isSpeaking_th := False, currentStatus_th := glyph_muted @ '' Speech stopped''\<rparr>,
     SynthesisCancel #
     (case avatarRef st of
        None \<Rightarrow> []
      | Some head \<Rightarrow> if has_stopSpeaking head then [HeadStopSpeaking] else []))"

definition testCommand_th ::
    "bool \<Rightarrow> string \<Rightarrow> AppState_th \<Rightarrow> AppState_th \<times> Effect_th list" where
  "testCommand_th ready commandText st =
    (case find (\<lambda>cmd. command cmd = commandText) (commands_th st) of
       None \<Rightarrow> (st, [])
     | Some cmd \<Rightarrow> executeCommand ready cmd st)"

text \<open>The end of the avatar's loading. Either the head is stored and the avatar is ready,
  or the loading failed and \<open>createFallbackAvatar\<close> draws an avatar on a canvas: it returns
  early when the mount point is gone (\<open>mounted\<close> false) or the canvas gives no drawing
  context (\<open>hasContext\<close> false), and the avatar is ready only when it drew. While loading,
  progress lines are written to the status.\<close>

definition avatarLoaded :: "Head \<Rightarrow> AppState_th \<Rightarrow> AppState_th" where
  "avatarLoaded head st =
    st\<lparr>avatarRef := Some head, isAvatarReady := True,
       currentStatus_th := glyph_check @ '' Professional crew avatar ready!''\<rparr>"

definition createFallbackAvatar :: "bool \<Rightarrow> bool \<Rightarrow> AppState_th \<Rightarrow> AppState_th" where
  "createFallbackAvatar mounted hasContext st =
    (if \<not> mounted then st
     else
       (let st1 = st\<lparr>currentStatus_th := glyph_palette @ '' Creating backup crew avatar...''\<rparr>
        in if \<not> hasContext then st1
           else st1\<lparr>isAvatarReady := True,
                   currentStatus_th := glyph_check @ '' Backup crew avatar ready!''\<rparr>))"

definition avatarLoadFailed :: "bool \<Rightarrow> bool \<Rightarrow> AppState_th \<Rightarrow> AppState_th" where
  "avatarLoadFailed mounted hasContext st =
    createFallbackAvatar mounted hasContext
      (st\<lparr>currentStatus_th := glyph_warning @ '' Loading fallback avatar...''\<rparr>)"

definition loadingStatus :: "string \<Rightarrow> nat option \<Rightarrow> AppState_th \<Rightarrow> AppState_th" where
  "loadingStatus line percent st =
    (case percent of
       None \<Rightarrow> st\<lparr>currentStatus_th := line\<rparr>
     | Some p \<Rightarrow> st\<lparr>currentStatus_th := line, loadingProgress := p\<rparr>)"

text \<open>
  The events of this component. The voice button is shown only while not listening and is
  disabled until the avatar is ready; the stop button is shown only while speaking; a test
  button is disabled while speaking and until the avatar is ready. The recognition
  callbacks are created once, after the first render, and reach the \<open>executeCommand\<close> of
  that render, whose \<open>isAvatarReady\<close> is \<open>False\<close>; a test button reaches the current one.
  A browser utterance that fails raises \<open>error\<close> and not \<open>end\<close>; no callback is set for it.
\<close>

datatype Event_th =
    ClickVoice
  | ClickStopSpeaking
  | ClickTest_th string
  | RecResult_th string
  | RecError_th string
  | RecEnded_th
  | UtteranceEnd_th
  | UtteranceError_th
  | HeadSpoke VoiceCommand_th
  | HeadFailed VoiceCommand_th
  | AvatarLoading string "nat option"
  | AvatarLoaded Head
  | AvatarLoadFailed bool bool

fun step_th :: "Event_th \<Rightarrow> AppState_th \<Rightarrow> AppState_th \<times> Effect_th list" where
  "step_th ClickVoice st =
     (if isListening_th st \<or> \<not> isAvatarReady st then (st, []) else startListening_th st)"
| "step_th ClickStopSpeaking st =
     (if \<not> isSpeaking_th st then (st, []) else stopSpeaking st)"
| "step_th (ClickTest_th commandText) st =
     (if isSpeaking_th st \<or> \<not> isAvatarReady st then (st, [])
      else testCommand_th (isAvatarReady st) commandText st)"
| "step_th (RecResult_th raw) st = onresult_th False raw st"
| "step_th (RecError_th err) st = onerror_th err st"
| "step_th RecEnded_th st = onend_th st"
| "step_th UtteranceEnd_th st = (utterance_onend_th st, [])"
| "step_th UtteranceError_th st = (st, [])"
| "step_th (HeadSpoke cmd) st = (executeCommand_done cmd st, [])"
| "step_th (HeadFailed cmd) st = executeCommand_failed cmd st"
| "step_th (AvatarLoading line percent) st = (loadingStatus line percent st, [])"
| "step_th (AvatarLoaded head) st = (avatarLoaded head st, [])"
| "step_th (AvatarLoadFailed mounted hasContext) st = (avatarLoadFailed mounted hasContext st, [])"

definition run_th :: "Event_th list \<Rightarrow> AppState_th \<Rightarrow> AppState_th" where
  "run_th evs st = foldl (\<lambda>s ev. fst (step_th ev s)) st evs"


section \<open>The per-frame transform of \<open>FallbackAvatar\<close>\<close>

text \<open>
  The frame callback of the first iteration's \<open>FallbackAvatar\<close>, over the real numbers
  (the source computes in double precision; rounding is not modelled). The reference to
  the group is \<open>None\<close> until the group is mounted, and then nothing is written. The second
  iteration's \<open>FallbackAvatar\<close> writes \<open>scale.y\<close> by the same two lines.
\<close>

record Transform =
  scale_y :: real
  rotation_x :: real
  rotation_y :: real
  rotation_z :: real
  position_y :: real

definition breathe :: "real \<Rightarrow> real" where
  "breathe time = sin (time * 2) * 0.02 + 1"

definition fallbackAvatarFrame ::
    "string \<Rightarrow> bool \<Rightarrow> real \<Rightarrow> Transform option \<Rightarrow> Transform option" where
  "fallbackAvatarFrame animation lipSync time ref =
    (case ref of
       None \<Rightarrow> None
     | Some tr \<Rightarrow>
         (let tr1 = tr\<lparr>scale_y := breathe time\<rparr>;
              tr2 = (if lipSync then tr1\<lparr>rotation_x := (sin (time * 8) * 0.3) * 0.1\<rparr> else tr1)
          in Some
               (if animation = ''alert'' then tr2\<lparr>rotation_z := sin (time * 4) * 0.1\<rparr>
                else if animation = ''instruction'' then tr2\<lparr>rotation_y := sin (time * 2) * 0.2\<rparr>
                else if animation = ''announcement'' then tr2\<lparr>position_y := sin (time * 3) * 0.3\<rparr>
                else tr2)))"


section \<open>The events that bound the listening and speaking intervals\<close>

text \<open>
  For stating when a flag can be set: the events at which the keyword-matching application
  writes the listening flag (the engine has started, has failed, has ended), those at
  which the animated-head application writes it (the voice button, the engine has failed,
  has ended), and the events at which the keyword-matching application can write the
  speaking flag (a test button, a recognition result, the end of an utterance).
\<close>

fun listeningBoundary :: "Event \<Rightarrow> bool" where
  "listeningBoundary RecStarted = True"
| "listeningBoundary (RecError err) = True"
| "listeningBoundary RecEnded = True"
| "listeningBoundary ev = False"

fun listeningBoundary_th :: "Event_th \<Rightarrow> bool" where
  "listeningBoundary_th ClickVoice = True"
| "listeningBoundary_th (RecError_th err) = True"
| "listeningBoundary_th RecEnded_th = True"
| "listeningBoundary_th ev = False"

fun speakingBoundary :: "Event \<Rightarrow> bool" where
  "speakingBoundary (ClickTest commandText) = True"
| "speakingBoundary (RecResult transcript) = True"
| "speakingBoundary UtteranceEnd = True"
| "speakingBoundary ev = False"


section \<open>Properties\<close>

lemma startsWith_iff: "startsWith s p \<longleftrightarrow> (\<exists>ss. s = p @ ss)"
  by (induction s p rule: startsWith.induct) auto

lemma includes_str_iff: "includes_str s sub \<longleftrightarrow> (\<exists>ps ss. s = ps @ sub @ ss)"
proof (induction s)
  case Nil
  then show ?case by auto
next
  case (Cons c cs)
  show ?case
  proof
    assume "includes_str (c # cs) sub"
    then consider "startsWith (c # cs) sub" | "includes_str cs sub" by auto
    then show "\<exists>ps ss. c # cs = ps @ sub @ ss"
    proof cases
      case 1
      then obtain ss where "c # cs = sub @ ss" by (auto simp: startsWith_iff)
      then have "c # cs = [] @ sub @ ss" by simp
      then show ?thesis by blast
    next
      case 2
      then obtain ps ss where "cs = ps @ sub @ ss" using Cons.IH by blast
      then have "c # cs = (c # ps) @ sub @ ss" by simp
      then show ?thesis by blast
    qed
  next
    assume "\<exists>ps ss. c # cs = ps @ sub @ ss"
    then obtain ps ss where eq: "c # cs = ps @ sub @ ss" by blast
    show "includes_str (c # cs) sub"
    proof (cases ps)
      case Nil
      with eq have "startsWith (c # cs) sub" by (auto simp: startsWith_iff)
      then show ?thesis by simp
    next
      case (Cons p ps')
      with eq have "cs = ps' @ sub @ ss" by simp
      then have "includes_str cs sub" using Cons.IH by blast
      then show ?thesis by simp
    qed
  qed
qed


subsection \<open>Runs, and what no handler touches\<close>

lemma run_Nil: "run voices [] st = st"
  by (simp add: run_def)

lemma run_snoc: "run voices (evs @ [ev]) st = fst (step voices ev (run voices evs st))"
  by (simp add: run_def)

lemma step_commands: "commands (fst (step voices ev st)) = commands st"
proof (cases ev)
  case (TimerFired cb)
  then show ?thesis by (cases cb) (simp_all add: lipSyncTimeout_def animationTimeout_def)
qed (auto simp: startListening_def stopListening_def testCommand_def onstart_def onresult_def
      onerror_def onend_def utterance_onend_def performLipSync_def performAnimation_def
      speak_def Let_def split: option.splits prod.splits)

lemma run_commands: "commands (run voices evs st) = commands st"
  by (induction evs rule: rev_induct) (simp_all add: run_Nil run_snoc step_commands)

lemma run_th_Nil: "run_th [] st = st"
  by (simp add: run_th_def)

lemma run_th_snoc: "run_th (evs @ [ev]) st = fst (step_th ev (run_th evs st))"
  by (simp add: run_th_def)

lemma executeCommand_commands: "commands_th (fst (executeCommand ready cmd st)) = commands_th st"
  by (simp add: executeCommand_def speak_th_def Let_def split: option.splits)

lemma step_th_commands: "commands_th (fst (step_th ev st)) = commands_th st"
  by (cases ev)
     (auto simp: startListening_th_def stopSpeaking_def testCommand_th_def onresult_th_def
        onerror_th_def onend_th_def utterance_onend_th_def executeCommand_commands
        executeCommand_done_def executeCommand_failed_def speak_th_def loadingStatus_def
        avatarLoaded_def avatarLoadFailed_def createFallbackAvatar_def Let_def split: option.splits)

lemma run_th_commands: "commands_th (run_th evs st) = commands_th st"
  by (induction evs rule: rev_induct) (simp_all add: run_th_Nil run_th_snoc step_th_commands)

lemma reachable_commands: "commands (run voices evs (initialState supported)) = voiceCommands"
  by (simp add: run_commands initialState_def)

lemma reachable_commands_th: "commands_th (run_th evs (initialState_th supported)) = voiceCommands_th"
  by (simp add: run_th_commands initialState_th_def)


subsection \<open>The command table is static\<close>

text \<open>
  Claim C7. The command table is fixed at startup and never changed: no event of either
  application (a click, a recognition callback, an utterance event, a timer, the end of a
  spoken announcement, the loading of the avatar) changes the array of command entries, so
  in every state reached from the initial one the array is the table written in the
  source, and every lookup searches that table.
\<close>

theorem command_table_static:
  "commands (fst (step voices ev st)) = commands st \<and>
   commands_th (fst (step_th ev' st')) = commands_th st' \<and>
   commands (run voices evs (initialState supported)) = voiceCommands \<and>
   commands_th (run_th evs' (initialState_th supported')) = voiceCommands_th \<and>
   matchedCommand (run voices evs (initialState supported)) txt =
     find (\<lambda>cmd. includes_str txt (vc_text cmd)) voiceCommands \<and>
   matchedCommand_th (run_th evs' (initialState_th supported')) txt =
     find (\<lambda>cmd. list_ex (wordMatches (command cmd)) (split_space txt)) voiceCommands_th"
  by (simp add: step_commands step_th_commands reachable_commands reachable_commands_th
      matchedCommand_def matchedCommand_th_def)

theorem command_table_static_witness:
  "commands (run [] [RecStarted, RecResult ''Welcome'', UtteranceEnd, RecError ''network'']
      (initialState True)) = voiceCommands \<and>
   commands_th (run_th [AvatarLoadFailed True True, ClickTest_th ''landing'', UtteranceEnd_th]
      (initialState_th True)) = voiceCommands_th"
  using command_table_static
    [of "[]" ClickStart "initialState True" ClickVoice "initialState_th True"
        "[RecStarted, RecResult ''Welcome'', UtteranceEnd, RecError ''network'']" True
        "[AvatarLoadFailed True True, ClickTest_th ''landing'', UtteranceEnd_th]" True "[]"]
  by simp


subsection \<open>Recognition errors\<close>

text \<open>
  Claim C6. For every recognition error event, the error handler writes the error
  notification to the status text and sets the listening flag to false, in both
  applications. The error is not retried (the handler makes no request to the engine) and
  is not fatal: the handler returns a state, from which the start button starts the
  engine again whenever an engine exists.
\<close>

theorem recognition_error_handled:
  "onerror err st =
     (st\<lparr>avatarState := (avatarState st)\<lparr>isListening := False\<rparr>,
         currentStatus := glyph_microphone @ '' Voice recognition error. Please try again.''\<rparr>,
      []) \<and>
   step voices (RecError err) st = onerror err st \<and>
   isListening (avatarState (fst (onerror err st))) = False \<and>
   startListening (fst (onerror err st)) =
     (fst (onerror err st), if recognitionRef st then [RecognitionStart] else []) \<and>
   onerror_th err st' =
     (st'\<lparr>isListening_th := False,
          currentStatus_th := glyph_microphone @ '' Voice recognition error. Please try again.''\<rparr>,
      []) \<and>
   step_th (RecError_th err) st' = onerror_th err st' \<and>
   isListening_th (fst (onerror_th err st')) = False \<and>
   snd (startListening_th (fst (onerror_th err st'))) =
     (if speechRecognition st' then [RecognitionStart_th] else [])"
  by (simp add: onerror_def onerror_th_def startListening_def startListening_th_def)

theorem recognition_error_handled_witness:
  "isListening (avatarState (fst (onerror ''no-speech''
      (fst (onstart (initialState True)))))) = False \<and>
   currentStatus (fst (onerror ''no-speech'' (fst (onstart (initialState True))))) =
     glyph_microphone @ '' Voice recognition error. Please try again.'' \<and>
   snd (onerror ''no-speech'' (fst (onstart (initialState True)))) = [] \<and>
   snd (startListening (fst (onerror ''no-speech'' (fst (onstart (initialState True)))))) =
     [RecognitionStart]"
  using recognition_error_handled
    [of "''no-speech''" "fst (onstart (initialState True))" "[]" "initialState_th True"]
  by (simp add: onstart_def initialState_def onerror_def startListening_def)


subsection \<open>A triggered command: status, speech and animation\<close>

lemma find_by_key:
  "distinct (map f xs) \<Longrightarrow> x \<in> set xs \<Longrightarrow> find (\<lambda>c. f c = f x) xs = Some x"
  by (induction xs) force+

lemma voiceCommands_keys:
  "map vc_text voiceCommands =
     [''turbulence'', ''seatbelt'', ''landing'', ''takeoff'', ''emergency'', ''welcome'', ''safety'']"
  by (simp add: voiceCommands_def)

lemma find_own_text:
  "cmd \<in> set voiceCommands \<Longrightarrow> find (\<lambda>c. vc_text c = vc_text cmd) voiceCommands = Some cmd"
  by (rule find_by_key) (simp_all add: voiceCommands_keys)

lemma instructions_all:
  "list_all (\<lambda>cmd. map_of instructions (vc_text cmd) = Some (getInstructionForCommand (vc_text cmd)))
     voiceCommands"
  by (simp add: voiceCommands_def instructions_def getInstructionForCommand_def)

lemma instruction_of_table:
  "cmd \<in> set voiceCommands \<Longrightarrow>
     map_of instructions (vc_text cmd) = Some (getInstructionForCommand (vc_text cmd))"
  using instructions_all by (simp add: list_all_iff)

lemmas case_defs = toUpperCase_def upperChar_def toLowerCase_def lowerChar_def
  upperLetters_def lowerLetters_def

text \<open>
  Claim C1, as the code has it. For every entry of the command table (keywords turbulence,
  seatbelt, landing, takeoff, emergency, welcome, safety) and in every reachable state,
  triggering that command, by its test button or by a recognized transcript for which it
  is the matched command, queues one utterance whose text is the instruction text that the
  instruction table holds for the keyword, makes the entry's animation tag the current
  animation, and sets the status to the keyword in capitals: after \<open>Testing:\<close> when the test
  button triggers it, after \<open>Executing:\<close> when the transcript does.
\<close>

theorem command_trigger_response:
  "cmd \<in> set voiceCommands \<Longrightarrow> st = run voices evs (initialState supported) \<Longrightarrow>
   testCommand voices (vc_text cmd) st =
     (st\<lparr>avatarState := (avatarState st)\<lparr>lipSyncActive := True,
                                          currentAnimation := vc_animation cmd\<rparr>,
         currentStatus := glyph_target @ '' Testing: '' @ toUpperCase (vc_text cmd),
         isSpeaking := True\<rparr>,
      [SetTimeout LipSyncOff (length (vc_text cmd) * 150),
       SetTimeout AnimationIdle 2500,
       Speak \<lparr>utt_text = getInstructionForCommand (vc_text cmd),
              utt_voice = find isProfessionalVoice voices\<rparr>]) \<and>
   (matchedCommand st (toLowerCase transcript) = Some cmd \<longrightarrow>
    onresult voices transcript st =
      (st\<lparr>avatarState := (avatarState st)\<lparr>recognizedText := toLowerCase transcript,
                                           lipSyncActive := True,
                                           currentAnimation := vc_animation cmd\<rparr>,
          currentStatus := glyph_target @ '' Executing: '' @ toUpperCase (vc_text cmd),
          isSpeaking := True\<rparr>,
       [SetTimeout LipSyncOff (length (vc_text cmd) * 150),
        SetTimeout AnimationIdle 2500,
        Speak \<lparr>utt_text = getInstructionForCommand (vc_text cmd),
               utt_voice = find isProfessionalVoice voices\<rparr>])) \<and>
   map_of instructions (vc_text cmd) = Some (getInstructionForCommand (vc_text cmd))"
  by (simp add: testCommand_def onresult_def matchedCommand_def reachable_commands
      find_own_text instruction_of_table performLipSync_def performAnimation_def speak_def
      Let_def)

theorem command_trigger_response_witness:
  "testCommand [] ''turbulence'' (initialState True) =
     (\<lparr>avatarState = \<lparr>isListening = False, currentAnimation = ''alert'',
                      lipSyncActive = True, recognizedText = ''''\<rparr>,
       currentStatus = glyph_target @ '' Testing: TURBULENCE'',
       isSpeaking = True, commands = voiceCommands, recognitionRef = True\<rparr>,
      [SetTimeout LipSyncOff 1500, SetTimeout AnimationIdle 2500,
       Speak \<lparr>utt_text = ''Ladies and gentlemen, we are experiencing some turbulence. Please return to your seats and fasten your seatbelts immediately.'',
              utt_voice = None\<rparr>]) \<and>
   onresult [] ''Please announce TURBULENCE now'' (initialState True) =
     (\<lparr>avatarState = \<lparr>isListening = False, currentAnimation = ''alert'',
                      lipSyncActive = True,
                      recognizedText = ''please announce turbulence now''\<rparr>,
       currentStatus = glyph_target @ '' Executing: TURBULENCE'',
       isSpeaking = True, commands = voiceCommands, recognitionRef = True\<rparr>,
      [SetTimeout LipSyncOff 1500, SetTimeout AnimationIdle 2500,
       Speak \<lparr>utt_text = ''Ladies and gentlemen, we are experiencing some turbulence. Please return to your seats and fasten your seatbelts immediately.'',
              utt_voice = None\<rparr>])"
proof -
  let ?cmd = "\<lparr>vc_text = ''turbulence'', vc_animation = ''alert''\<rparr>"
  have mem: "?cmd \<in> set voiceCommands"
    by (simp add: voiceCommands_def)
  have low: "toLowerCase ''Please announce TURBULENCE now'' = ''please announce turbulence now''"
    by (simp add: case_defs)
  have up: "toUpperCase ''turbulence'' = ''TURBULENCE''"
    by (simp add: case_defs)
  have ins: "getInstructionForCommand ''turbulence'' = ''Ladies and gentlemen, we are experiencing some turbulence. Please return to your seats and fasten your seatbelts immediately.''"
    by (simp add: getInstructionForCommand_def instructions_def)
  have m: "matchedCommand (initialState True) ''please announce turbulence now'' = Some ?cmd"
    by (simp add: matchedCommand_def initialState_def voiceCommands_def)
  from command_trigger_response
         [OF mem, of "initialState True" "[]" "[]" True "''Please announce TURBULENCE now''"]
  show ?thesis
    by (simp add: run_Nil low up ins m) (simp add: initialState_def)
qed


text \<open>
  The claim as first stated has every trigger set the status to executing the keyword, and
  counts every recognized transcript that contains the keyword as a trigger of its
  command. The test button for \<open>turbulence\<close> sets the status to \<open>Testing: TURBULENCE\<close>. The
  transcript below contains the keyword \<open>seatbelt\<close>, and what it triggers is the turbulence
  command, which stands before seatbelt in the table: the animation is \<open>alert\<close>, not
  \<open>instruction\<close>, and the turbulence text is spoken.
\<close>

theorem command_trigger_response_counterexample:
  "currentStatus (fst (testCommand [] ''turbulence'' (initialState True))) =
     glyph_target @ '' Testing: TURBULENCE'' \<and>
   currentStatus (fst (testCommand [] ''turbulence'' (initialState True))) \<noteq>
     glyph_target @ '' Executing: TURBULENCE'' \<and>
   includes_str (toLowerCase ''Fasten seatbelt, turbulence ahead'') ''seatbelt'' \<and>
   find (\<lambda>cmd. vc_text cmd = ''seatbelt'') voiceCommands =
     Some \<lparr>vc_text = ''seatbelt'', vc_animation = ''instruction''\<rparr> \<and>
   currentAnimation (avatarState
     (fst (onresult [] ''Fasten seatbelt, turbulence ahead'' (initialState True)))) = ''alert'' \<and>
   currentStatus (fst (onresult [] ''Fasten seatbelt, turbulence ahead'' (initialState True))) =
     glyph_target @ '' Executing: TURBULENCE'' \<and>
   map utt_text (concat (map (\<lambda>e. case e of Speak u \<Rightarrow> [u] | _ \<Rightarrow> [])
     (snd (onresult [] ''Fasten seatbelt, turbulence ahead'' (initialState True))))) =
     [''Ladies and gentlemen, we are experiencing some turbulence. Please return to your seats and fasten your seatbelts immediately.'']"
proof -
  have up: "toUpperCase ''turbulence'' = ''TURBULENCE''"
    by (simp add: case_defs)
  have low: "toLowerCase ''Fasten seatbelt, turbulence ahead'' = ''fasten seatbelt, turbulence ahead''"
    by (simp add: case_defs)
  have ins: "getInstructionForCommand ''turbulence'' = ''Ladies and gentlemen, we are experiencing some turbulence. Please return to your seats and fasten your seatbelts immediately.''"
    by (simp add: getInstructionForCommand_def instructions_def)
  have t: "testCommand [] ''turbulence'' (initialState True) =
      ((initialState True)\<lparr>avatarState := (avatarState (initialState True))
           \<lparr>lipSyncActive := True, currentAnimation := ''alert''\<rparr>,
         currentStatus := glyph_target @ '' Testing: TURBULENCE'', isSpeaking := True\<rparr>,
       [SetTimeout LipSyncOff 1500, SetTimeout AnimationIdle 2500,
        Speak \<lparr>utt_text = getInstructionForCommand ''turbulence'', utt_voice = None\<rparr>])"
    by (simp add: testCommand_def initialState_def voiceCommands_def performLipSync_def
        performAnimation_def speak_def up Let_def)
  have r: "onresult [] ''Fasten seatbelt, turbulence ahead'' (initialState True) =
      ((initialState True)\<lparr>avatarState := (avatarState (initialState True))
           \<lparr>recognizedText := ''fasten seatbelt, turbulence ahead'',
            lipSyncActive := True, currentAnimation := ''alert''\<rparr>,
         currentStatus := glyph_target @ '' Executing: TURBULENCE'', isSpeaking := True\<rparr>,
       [SetTimeout LipSyncOff 1500, SetTimeout AnimationIdle 2500,
        Speak \<lparr>utt_text = getInstructionForCommand ''turbulence'', utt_voice = None\<rparr>])"
    by (simp add: onresult_def low matchedCommand_def initialState_def voiceCommands_def
        performLipSync_def performAnimation_def speak_def up Let_def)
  have 1: "includes_str (toLowerCase ''Fasten seatbelt, turbulence ahead'') ''seatbelt''"
    by (simp add: low)
  have 2: "find (\<lambda>cmd. vc_text cmd = ''seatbelt'') voiceCommands =
     Some \<lparr>vc_text = ''seatbelt'', vc_animation = ''instruction''\<rparr>"
    by (simp add: voiceCommands_def)
  show ?thesis
    unfolding t r using 1 2 by (simp add: ins glyph_target_def)
qed


subsection \<open>Keyword matching\<close>

text \<open>
  Claim C9. Command matching is substring containment resolved in table order. In every
  reachable state the table lists the keywords in the order turbulence, seatbelt, landing,
  takeoff, emergency, welcome, safety; the command matched for a transcript is the entry
  at the least position whose keyword occurs in the lower-case transcript as a contiguous
  piece; and no command is matched exactly when no keyword occurs in it.
\<close>

theorem command_matching_table_order:
  "st = run voices evs (initialState supported) \<Longrightarrow> txt = toLowerCase transcript \<Longrightarrow>
   map vc_text (commands st) =
     [''turbulence'', ''seatbelt'', ''landing'', ''takeoff'', ''emergency'', ''welcome'', ''safety''] \<and>
   (matchedCommand st txt = Some cmd \<longleftrightarrow>
      (\<exists>i<length (commands st).
          commands st ! i = cmd \<and>
          (\<exists>ps ss. txt = ps @ vc_text cmd @ ss) \<and>
          (\<forall>j<i. \<not> (\<exists>ps ss. txt = ps @ vc_text (commands st ! j) @ ss)))) \<and>
   (matchedCommand st txt = None \<longleftrightarrow>
      (\<forall>c \<in> set (commands st). \<not> (\<exists>ps ss. txt = ps @ vc_text c @ ss)))"
  by (auto simp: matchedCommand_def reachable_commands voiceCommands_keys find_Some_iff
      find_None_iff includes_str_iff)

theorem command_matching_table_order_witness:
  "matchedCommand (initialState True) ''fasten seatbelt, turbulence ahead'' =
     Some \<lparr>vc_text = ''turbulence'', vc_animation = ''alert''\<rparr> \<and>
   includes_str ''fasten seatbelt, turbulence ahead'' ''seatbelt'' \<and>
   (\<exists>i<length (commands (initialState True)).
       commands (initialState True) ! i = \<lparr>vc_text = ''turbulence'', vc_animation = ''alert''\<rparr> \<and>
       (\<exists>ps ss. ''fasten seatbelt, turbulence ahead'' = ps @ ''turbulence'' @ ss) \<and>
       (\<forall>j<i. \<not> (\<exists>ps ss. ''fasten seatbelt, turbulence ahead'' =
                            ps @ vc_text (commands (initialState True) ! j) @ ss)))"
proof -
  let ?cmd = "\<lparr>vc_text = ''turbulence'', vc_animation = ''alert''\<rparr>"
  have st: "initialState True = run [] [] (initialState True)"
    by (simp add: run_Nil)
  have low: "''fasten seatbelt, turbulence ahead'' = toLowerCase ''Fasten SEATBELT, turbulence ahead''"
    by (simp add: case_defs)
  have m: "matchedCommand (initialState True) ''fasten seatbelt, turbulence ahead'' = Some ?cmd"
    by (simp add: matchedCommand_def initialState_def voiceCommands_def)
  have s: "includes_str ''fasten seatbelt, turbulence ahead'' ''seatbelt''"
    by simp
  from command_matching_table_order [OF st low, of ?cmd] m s
  show ?thesis by simp
qed


subsection \<open>Word-by-word matching\<close>

lemma wordMatches_substring:
  "word \<in> set ws \<Longrightarrow> cmdName = ps @ word @ ss \<Longrightarrow> list_ex (wordMatches cmdName) ws"
  unfolding list_ex_iff wordMatches_def includes_str_iff by blast

lemma executeCommand_status:
  "currentStatus_th (fst (executeCommand True cmd st)) =
     glyph_target @ '' Executing: '' @ toUpperCase (command cmd)"
  by (simp add: executeCommand_def speak_th_def Let_def split: option.splits)

lemma trim_a: "trim (toLowerCase ''a'') = ''a''"
  by (simp add: trim_def isWhiteSpace_def case_defs)

lemma join_names:
  "join '', '' (map command voiceCommands_th) =
     ''turbulence, seatbelt, landing, safety, welcome, emergency''"
  by (simp add: voiceCommands_th_def)

text \<open>
  The recognition callbacks are created once, after the first render, and call the
  \<open>executeCommand\<close> of that render, which finds its \<open>isAvatarReady\<close> false and returns at once.
  So a recognized transcript that matches a command changes nothing and requests nothing,
  whatever the state.
\<close>

lemma voice_result_requests_nothing:
  "matchedCommand_th st (trim (toLowerCase raw)) = Some c \<Longrightarrow>
     step_th (RecResult_th raw) st = (st, [])"
  by (simp add: onresult_th_def executeCommand_def)

lemma executeCommand_status_cases:
  "fst (executeCommand ready cmd st) = st \<or>
   currentStatus_th (fst (executeCommand ready cmd st)) =
     glyph_target @ '' Executing: '' @ toUpperCase (command cmd)"
  by (cases ready) (simp_all add: executeCommand_status, simp add: executeCommand_def)

text \<open>
  Claim C10, as the code has it. In the animated-head application the recognized
  transcript is lower-cased, trimmed and cut at single space characters, and it matches a
  command whenever one of the pieces occurs inside the command's name, whatever the length
  of the piece: then some command of the table is matched, and the result handler passes
  it to \<open>executeCommand\<close> and does not write the not-recognized status (the state is left as
  it was, or the status becomes the executing status of that command). So the transcript
  \<open>a\<close>, a single letter that occurs in \<open>seatbelt\<close>, is matched with the seatbelt command and
  passed on.
\<close>

theorem fuzzy_match_any_word:
  "st = run_th evs (initialState_th supported) \<Longrightarrow> transcript = trim (toLowerCase raw) \<Longrightarrow>
   (cmd \<in> set (commands_th st) \<and> word \<in> set (split_space transcript) \<and>
    (\<exists>ps ss. command cmd = ps @ word @ ss) \<longrightarrow>
      list_ex (wordMatches (command cmd)) (split_space transcript) \<and>
      (\<exists>c. c \<in> set voiceCommands_th \<and>
           matchedCommand_th st transcript = Some c \<and>
           onresult_th ready raw st = executeCommand ready c st \<and>
           (fst (onresult_th ready raw st) = st \<or>
            currentStatus_th (fst (onresult_th ready raw st)) =
              glyph_target @ '' Executing: '' @ toUpperCase (command c)))) \<and>
   (\<exists>c. command c = ''seatbelt'' \<and>
        matchedCommand_th st (trim (toLowerCase ''a'')) = Some c \<and>
        onresult_th ready ''a'' st = executeCommand ready c st \<and>
        (fst (onresult_th ready ''a'' st) = st \<or>
         currentStatus_th (fst (onresult_th ready ''a'' st)) =
           glyph_target @ '' Executing: SEATBELT''))"
proof (intro conjI impI)
  assume st: "st = run_th evs (initialState_th supported)"
     and tr: "transcript = trim (toLowerCase raw)"
  let ?sb = "\<lparr>command = ''seatbelt'',
      instruction = ''The seatbelt sign has been turned on. Please fasten your seatbelts and return your seats to the upright position.'',
      gesture = Some ''point''\<rparr>"
  have tbl: "commands_th st = voiceCommands_th"
    by (simp add: st reachable_commands_th)
  have m: "matchedCommand_th st (trim (toLowerCase ''a'')) = Some ?sb"
    by (simp add: trim_a matchedCommand_th_def tbl voiceCommands_th_def wordMatches_def)
  have h: "onresult_th ready ''a'' st = executeCommand ready ?sb st"
    using m by (simp add: onresult_th_def)
  have up: "toUpperCase ''seatbelt'' = ''SEATBELT''"
    by (simp add: case_defs)
  have s: "fst (onresult_th ready ''a'' st) = st \<or>
         currentStatus_th (fst (onresult_th ready ''a'' st)) =
           glyph_target @ '' Executing: SEATBELT''"
    using executeCommand_status_cases [of ready ?sb st] by (simp add: h up)
  from m h s show "\<exists>c. command c = ''seatbelt'' \<and>
        matchedCommand_th st (trim (toLowerCase ''a'')) = Some c \<and>
        onresult_th ready ''a'' st = executeCommand ready c st \<and>
        (fst (onresult_th ready ''a'' st) = st \<or>
         currentStatus_th (fst (onresult_th ready ''a'' st)) =
           glyph_target @ '' Executing: SEATBELT'')"
    by (intro exI [of _ ?sb]) simp
  {
    assume a: "cmd \<in> set (commands_th st) \<and> word \<in> set (split_space transcript) \<and>
      (\<exists>ps ss. command cmd = ps @ word @ ss)"
    then show w: "list_ex (wordMatches (command cmd)) (split_space transcript)"
      using wordMatches_substring by blast
    with a have "matchedCommand_th st transcript \<noteq> None"
      by (auto simp: matchedCommand_th_def find_None_iff)
    then obtain c where c: "matchedCommand_th st transcript = Some c" by blast
    then have mem: "c \<in> set voiceCommands_th"
      by (auto simp: matchedCommand_th_def tbl find_Some_iff)
    from c have e: "onresult_th ready raw st = executeCommand ready c st"
      by (simp add: onresult_th_def tr)
    have "fst (onresult_th ready raw st) = st \<or>
            currentStatus_th (fst (onresult_th ready raw st)) =
              glyph_target @ '' Executing: '' @ toUpperCase (command c)"
      using executeCommand_status_cases [of ready c st] by (simp add: e)
    with c mem e show "\<exists>c. c \<in> set voiceCommands_th \<and>
           matchedCommand_th st transcript = Some c \<and>
           onresult_th ready raw st = executeCommand ready c st \<and>
           (fst (onresult_th ready raw st) = st \<or>
            currentStatus_th (fst (onresult_th ready raw st)) =
              glyph_target @ '' Executing: '' @ toUpperCase (command c))"
      by blast
  }
qed

theorem fuzzy_match_any_word_witness:
  "list_ex (wordMatches ''welcome'') (split_space ''me too'') \<and>
   matchedCommand_th (initialState_th True) ''me too'' = Some (voiceCommands_th ! 4) \<and>
   onresult_th False ''Me too '' (initialState_th True) =
     executeCommand False (voiceCommands_th ! 4) (initialState_th True) \<and>
   step_th (RecResult_th ''Me too '') (initialState_th True) =
     executeCommand False (voiceCommands_th ! 4) (initialState_th True)"
proof -
  have st: "initialState_th True = run_th [] (initialState_th True)"
    by (simp add: run_th_Nil)
  have tr: "''me too'' = trim (toLowerCase ''Me too '')"
    by (simp add: trim_def isWhiteSpace_def case_defs)
  have mem: "voiceCommands_th ! 4 \<in> set (commands_th (initialState_th True))"
    by (simp add: initialState_th_def voiceCommands_th_def)
  have w: "''me'' \<in> set (split_space ''me too'')"
    by simp
  have sub: "command (voiceCommands_th ! 4) = ''welco'' @ ''me'' @ []"
    by (simp add: voiceCommands_th_def)
  have nm: "command (voiceCommands_th ! 4) = ''welcome''"
    by (simp add: voiceCommands_th_def)
  have m: "matchedCommand_th (initialState_th True) ''me too'' = Some (voiceCommands_th ! 4)"
    by (simp add: matchedCommand_th_def initialState_th_def voiceCommands_th_def wordMatches_def)
  have ex: "\<exists>ps ss. command (voiceCommands_th ! 4) = ps @ ''me'' @ ss"
    using sub by blast
  note T = fuzzy_match_any_word [OF st tr, of "voiceCommands_th ! 4" "''me''" False]
  from T mem w ex
  have A: "list_ex (wordMatches (command (voiceCommands_th ! 4))) (split_space ''me too'')"
    and B: "\<exists>c. matchedCommand_th (initialState_th True) ''me too'' = Some c \<and>
              onresult_th False ''Me too '' (initialState_th True) =
                executeCommand False c (initialState_th True)"
    by blast+
  from A B m show ?thesis
    by (simp add: nm)
qed

text \<open>
  The claim as first stated takes the words between any white space, and has the matched
  command executed. A tab is white space, and the word \<open>a\<close> after it occurs in \<open>seatbelt\<close>;
  the code cuts at spaces only, matches nothing, and writes the not-recognized status. And
  with the avatar ready and the engine listening, the recognized transcript \<open>a\<close> is matched
  and passed on, and nothing is executed: neither the state nor any request changes.
\<close>

theorem fuzzy_match_any_word_counterexample:
  "isWhiteSpace (CHR 0x09) \<and>
   includes_str ''seatbelt'' ''a'' \<and>
   isAvatarReady (run_th [AvatarLoadFailed True True, ClickVoice] (initialState_th True)) \<and>
   matchedCommand_th (run_th [AvatarLoadFailed True True, ClickVoice] (initialState_th True))
     (trim (toLowerCase [CHR ''x'', CHR 0x09, CHR ''a''])) = None \<and>
   currentStatus_th (fst (step_th (RecResult_th [CHR ''x'', CHR 0x09, CHR ''a''])
       (run_th [AvatarLoadFailed True True, ClickVoice] (initialState_th True)))) =
     glyph_question @ '' Command \"'' @ [CHR ''x'', CHR 0x09, CHR ''a''] @
     ''\" not recognized. Try: turbulence, seatbelt, landing, safety, welcome, emergency'' \<and>
   step_th (RecResult_th ''a'')
       (run_th [AvatarLoadFailed True True, ClickVoice] (initialState_th True)) =
     (run_th [AvatarLoadFailed True True, ClickVoice] (initialState_th True), [])"
proof -
  let ?st = "run_th [AvatarLoadFailed True True, ClickVoice] (initialState_th True)"
  have tbl: "commands_th ?st = voiceCommands_th"
    by (rule reachable_commands_th)
  have rdy: "isAvatarReady ?st"
    by (simp add: run_th_def avatarLoadFailed_def createFallbackAvatar_def
        startListening_th_def initialState_th_def)
  have tr: "trim (toLowerCase [CHR ''x'', CHR 0x09, CHR ''a'']) = [CHR ''x'', CHR 0x09, CHR ''a'']"
    by (simp add: trim_def isWhiteSpace_def case_defs)
  have none: "matchedCommand_th ?st [CHR ''x'', CHR 0x09, CHR ''a''] = None"
    by (simp add: matchedCommand_th_def tbl voiceCommands_th_def wordMatches_def)
  have fb: "currentStatus_th (fst (step_th (RecResult_th [CHR ''x'', CHR 0x09, CHR ''a'']) ?st)) =
     glyph_question @ '' Command \"'' @ [CHR ''x'', CHR 0x09, CHR ''a''] @
     ''\" not recognized. Try: turbulence, seatbelt, landing, safety, welcome, emergency''"
    by (simp add: onresult_th_def tr none notRecognized_def tbl join_names)
  have some: "matchedCommand_th ?st (trim (toLowerCase ''a'')) \<noteq> None"
    by (simp add: trim_a matchedCommand_th_def tbl voiceCommands_th_def wordMatches_def)
  then obtain c where "matchedCommand_th ?st (trim (toLowerCase ''a'')) = Some c"
    by blast
  then have silent: "step_th (RecResult_th ''a'') ?st = (?st, [])"
    by (rule voice_result_requests_nothing)
  have ws: "isWhiteSpace (CHR 0x09)"
    by (simp add: isWhiteSpace_def)
  have inc: "includes_str ''seatbelt'' ''a''"
    by simp
  have none': "matchedCommand_th ?st (trim (toLowerCase [CHR ''x'', CHR 0x09, CHR ''a''])) = None"
    by (simp only: tr none)
  from ws inc rdy none' fb silent show ?thesis
    by (intro conjI)
qed


subsection \<open>Unrecognized transcripts\<close>

text \<open>
  Claim C2, as the code has it. In the animated-head application, for every recognized
  transcript with which the word-by-word matcher matches no command, the result handler
  sets the status to the not-recognized message, which quotes the transcript and lists the
  six command names, and does nothing else. The keyword-matching application has no such
  message: there a transcript in which no keyword occurs only updates the recognized text,
  and the status stays as it was.
\<close>

theorem unrecognized_transcript_fallback:
  "st = run_th evs (initialState_th supported) \<Longrightarrow>
   st' = run voices evs' (initialState supported') \<Longrightarrow>
   (matchedCommand_th st (trim (toLowerCase raw)) = None \<longrightarrow>
      onresult_th ready raw st =
        (st\<lparr>currentStatus_th :=
              glyph_question @ '' Command \"'' @ trim (toLowerCase raw) @
              ''\" not recognized. Try: turbulence, seatbelt, landing, safety, welcome, emergency''\<rparr>,
         [])) \<and>
   (matchedCommand st' (toLowerCase raw) = None \<longrightarrow>
      onresult voices raw st' =
        (st'\<lparr>avatarState := (avatarState st')\<lparr>recognizedText := toLowerCase raw\<rparr>\<rparr>, []) \<and>
      currentStatus (fst (onresult voices raw st')) = currentStatus st')"
  by (simp add: onresult_th_def onresult_def matchedCommand_def notRecognized_def
      reachable_commands_th join_names Let_def)

theorem unrecognized_transcript_fallback_witness:
  "onresult_th False ''Hello there'' (initialState_th True) =
     ((initialState_th True)\<lparr>currentStatus_th :=
         glyph_question @ '' Command \"hello there\" not recognized. Try: turbulence, seatbelt, landing, safety, welcome, emergency''\<rparr>,
      []) \<and>
   onresult [] ''Hello there'' (initialState True) =
     ((initialState True)\<lparr>avatarState :=
         (avatarState (initialState True))\<lparr>recognizedText := ''hello there''\<rparr>\<rparr>, [])"
proof -
  have st: "initialState_th True = run_th [] (initialState_th True)"
    by (simp add: run_th_Nil)
  have st': "initialState True = run [] [] (initialState True)"
    by (simp add: run_Nil)
  have low: "toLowerCase ''Hello there'' = ''hello there''"
    by (simp add: case_defs)
  have tr: "trim ''hello there'' = ''hello there''"
    by (simp add: trim_def isWhiteSpace_def)
  have m: "matchedCommand_th (initialState_th True) ''hello there'' = None"
    by (simp add: matchedCommand_th_def initialState_th_def voiceCommands_th_def wordMatches_def)
  have m': "matchedCommand (initialState True) ''hello there'' = None"
    by (simp add: matchedCommand_def initialState_def voiceCommands_def)
  from unrecognized_transcript_fallback [OF st st', of "''Hello there''" False] m m'
  show ?thesis
    by (simp add: low tr)
qed

text \<open>
  The claim as first stated fails on both applications. In the keyword-matching one the
  transcript \<open>hello there\<close> contains no keyword, and the status remains the initial one. In
  the animated-head one the transcript \<open>a\<close> contains no command name, yet it is matched, and
  the status is that of the executed command, or is left unchanged when \<open>executeCommand\<close>
  does not find the avatar ready.
\<close>

theorem unrecognized_transcript_counterexample:
  "\<not> list_ex (\<lambda>cmd. includes_str (toLowerCase ''hello there'') (vc_text cmd)) voiceCommands \<and>
   currentStatus (fst (onresult [] ''hello there'' (initialState True))) =
     ''Ready for voice commands'' \<and>
   \<not> list_ex (\<lambda>cmd. includes_str (trim (toLowerCase ''a'')) (command cmd)) voiceCommands_th \<and>
   currentStatus_th (fst (onresult_th True ''a'' (initialState_th True))) =
     glyph_target @ '' Executing: SEATBELT'' \<and>
   currentStatus_th (fst (onresult_th False ''a'' (initialState_th True))) =
     ''Loading professional avatar system...''"
proof -
  have low: "toLowerCase ''hello there'' = ''hello there''"
    by (simp add: case_defs)
  have 1: "\<not> list_ex (\<lambda>cmd. includes_str (toLowerCase ''hello there'') (vc_text cmd)) voiceCommands"
    by (simp add: low voiceCommands_def)
  have 2: "currentStatus (fst (onresult [] ''hello there'' (initialState True))) =
     ''Ready for voice commands''"
    by (simp add: onresult_def low matchedCommand_def initialState_def voiceCommands_def Let_def)
  have 3: "\<not> list_ex (\<lambda>cmd. includes_str (trim (toLowerCase ''a'')) (command cmd)) voiceCommands_th"
    by (simp add: trim_a voiceCommands_th_def)
  have m: "matchedCommand_th (initialState_th True) ''a'' =
      Some \<lparr>command = ''seatbelt'',
      instruction = ''The seatbelt sign has been turned on. Please fasten your seatbelts and return your seats to the upright position.'',
      gesture = Some ''point''\<rparr>"
    by (simp add: matchedCommand_th_def initialState_th_def voiceCommands_th_def wordMatches_def)
  have up: "toUpperCase ''seatbelt'' = ''SEATBELT''"
    by (simp add: case_defs)
  have 4: "currentStatus_th (fst (onresult_th True ''a'' (initialState_th True))) =
     glyph_target @ '' Executing: SEATBELT''"
    by (simp add: onresult_th_def trim_a m executeCommand_status up)
  have 5: "currentStatus_th (fst (onresult_th False ''a'' (initialState_th True))) =
     ''Loading professional avatar system...''"
    by (simp add: onresult_th_def trim_a m executeCommand_def) (simp add: initialState_th_def)
  from 1 2 3 4 5 show ?thesis by blast
qed


subsection \<open>What executing a command plays\<close>











subsection \<open>The listening flag\<close>

lemma step_listening:
  "isListening (avatarState (fst (step voices ev st))) =
     (if listeningBoundary ev then ev = RecStarted else isListening (avatarState st))"
proof (cases ev)
  case (TimerFired cb)
  then show ?thesis by (cases cb) (simp_all add: lipSyncTimeout_def animationTimeout_def)
qed (auto simp: startListening_def stopListening_def testCommand_def onstart_def onresult_def
      onerror_def onend_def utterance_onend_def performLipSync_def performAnimation_def
      speak_def Let_def split: option.splits prod.splits)

lemma run_listening:
  "isListening (avatarState (run voices evs st)) =
     (if filter listeningBoundary evs = [] then isListening (avatarState st)
      else last (filter listeningBoundary evs) = RecStarted)"
  by (induction evs rule: rev_induct) (simp_all add: run_Nil run_snoc step_listening)

lemma executeCommand_listening:
  "isListening_th (fst (executeCommand ready cmd st)) = isListening_th st"
  by (simp add: executeCommand_def speak_th_def Let_def split: option.splits)

lemma step_th_listening:
  "isListening_th (fst (step_th ev st)) =
     (if ev = ClickVoice then isListening_th st \<or> (isAvatarReady st \<and> speechRecognition st)
      else if listeningBoundary_th ev then False
      else isListening_th st)"
  by (cases ev)
     (auto simp: startListening_th_def stopSpeaking_def testCommand_th_def onresult_th_def
        onerror_th_def onend_th_def utterance_onend_th_def executeCommand_listening
        executeCommand_done_def executeCommand_failed_def speak_th_def loadingStatus_def
        avatarLoaded_def avatarLoadFailed_def createFallbackAvatar_def Let_def split: option.splits)

lemma run_th_listening:
  "isListening_th (run_th evs st) \<Longrightarrow>
     isListening_th st \<or>
     (filter listeningBoundary_th evs \<noteq> [] \<and> last (filter listeningBoundary_th evs) = ClickVoice)"
proof (induction evs rule: rev_induct)
  case Nil
  then show ?case by (simp add: run_th_Nil)
next
  case (snoc ev evs)
  then show ?case
    by (cases "ev = ClickVoice"; cases "listeningBoundary_th ev")
       (auto simp: run_th_snoc step_th_listening)
qed

text \<open>
  Claim C4, as the code has it. The listening flag is true only between a start and the
  next error or end event of the recognition engine. In the keyword-matching application
  it becomes true only when the engine's \<open>onstart\<close> callback fires: in every reachable state
  it is true exactly when the latest of the engine's start, error and end events is a
  start. The animated-head application has no \<open>onstart\<close> callback; there the flag becomes
  true only when the voice button starts the engine (\<open>startListening\<close>, with an engine present
  and the avatar ready), and in every reachable state in which it is true the latest of the
  voice-button, error and end events is a click on the voice button. In both applications
  \<open>onerror\<close> and \<open>onend\<close> set the flag false, and no other event changes it; a request to
  stop the engine changes it only through the end event that follows.
\<close>

theorem listening_interval:
  "(isListening (avatarState (run voices evs (initialState supported))) \<longleftrightarrow>
      filter listeningBoundary evs \<noteq> [] \<and> last (filter listeningBoundary evs) = RecStarted) \<and>
   (isListening_th (run_th evs' (initialState_th supported')) \<longrightarrow>
      filter listeningBoundary_th evs' \<noteq> [] \<and>
      last (filter listeningBoundary_th evs') = ClickVoice) \<and>
   isListening (avatarState (fst (step voices RecStarted st))) \<and>
   \<not> isListening (avatarState (fst (step voices (RecError err) st))) \<and>
   \<not> isListening (avatarState (fst (step voices RecEnded st))) \<and>
   (\<not> listeningBoundary ev \<longrightarrow>
      isListening (avatarState (fst (step voices ev st))) = isListening (avatarState st)) \<and>
   isListening_th (fst (step_th ClickVoice st')) =
     (isListening_th st' \<or> (isAvatarReady st' \<and> speechRecognition st')) \<and>
   \<not> isListening_th (fst (step_th (RecError_th err) st')) \<and>
   \<not> isListening_th (fst (step_th RecEnded_th st')) \<and>
   (\<not> listeningBoundary_th ev' \<longrightarrow>
      isListening_th (fst (step_th ev' st')) = isListening_th st')"
proof -
  have 1: "isListening (avatarState (run voices evs (initialState supported))) \<longleftrightarrow>
      filter listeningBoundary evs \<noteq> [] \<and> last (filter listeningBoundary evs) = RecStarted"
    by (simp add: run_listening) (simp add: initialState_def)
  have 2: "isListening_th (run_th evs' (initialState_th supported')) \<longrightarrow>
      filter listeningBoundary_th evs' \<noteq> [] \<and>
      last (filter listeningBoundary_th evs') = ClickVoice"
    using run_th_listening [of evs' "initialState_th supported'"]
    by (simp add: initialState_th_def)
  have 3: "\<not> listeningBoundary_th ev' \<longrightarrow>
      isListening_th (fst (step_th ev' st')) = isListening_th st'"
    by (cases "ev' = ClickVoice") (simp_all add: step_th_listening)
  have 4: "isListening_th (fst (step_th ClickVoice st')) =
     (isListening_th st' \<or> (isAvatarReady st' \<and> speechRecognition st'))"
    by (auto simp: startListening_th_def)
  have 5: "\<not> isListening_th (fst (step_th (RecError_th err) st'))"
      "\<not> isListening_th (fst (step_th RecEnded_th st'))"
    by (simp_all add: onerror_th_def onend_th_def)
  have 6: "isListening (avatarState (fst (step voices RecStarted st)))"
     "\<not> isListening (avatarState (fst (step voices (RecError err) st)))"
     "\<not> isListening (avatarState (fst (step voices RecEnded st)))"
     "\<not> listeningBoundary ev \<longrightarrow>
      isListening (avatarState (fst (step voices ev st))) = isListening (avatarState st)"
    by (simp_all only: step_listening listeningBoundary.simps if_True) simp_all
  from 1 2 3 4 5 6 show ?thesis
    by (intro conjI)
qed

theorem listening_interval_witness:
  "isListening (avatarState (run [] [ClickStart, RecStarted, RecResult ''welcome'']
      (initialState True))) \<and>
   \<not> isListening (avatarState (run [] [ClickStart, RecStarted, RecResult ''welcome'', RecEnded]
      (initialState True))) \<and>
   \<not> isListening_th (run_th [AvatarLoadFailed True True, ClickVoice, RecError_th ''no-speech'']
      (initialState_th True))"
proof -
  note T = listening_interval
  from T [of "[]" "[ClickStart, RecStarted, RecResult ''welcome'']" True "[]" True]
  have 1: "isListening (avatarState (run [] [ClickStart, RecStarted, RecResult ''welcome'']
      (initialState True)))"
    by simp
  from T [of "[]" "[ClickStart, RecStarted, RecResult ''welcome'', RecEnded]" True "[]" True]
  have 2: "\<not> isListening (avatarState (run []
      [ClickStart, RecStarted, RecResult ''welcome'', RecEnded] (initialState True)))"
    by simp
  from T [of "[]" "[]" True "[AvatarLoadFailed True True, ClickVoice, RecError_th ''no-speech'']" True]
  have 3: "\<not> isListening_th (run_th [AvatarLoadFailed True True, ClickVoice, RecError_th ''no-speech'']
      (initialState_th True))"
    by auto
  from 1 2 3 show ?thesis by (intro conjI)
qed

text \<open>
  The claim as first stated lets the flag become true only in the \<open>onstart\<close> callback. In the
  animated-head application the click on the voice button sets it, through
  \<open>startListening\<close>, before any event of the engine.
\<close>

theorem listening_interval_counterexample:
  "\<not> isListening_th (run_th [AvatarLoadFailed True True] (initialState_th True)) \<and>
   step_th ClickVoice (run_th [AvatarLoadFailed True True] (initialState_th True)) =
     startListening_th (run_th [AvatarLoadFailed True True] (initialState_th True)) \<and>
   isListening_th (run_th [AvatarLoadFailed True True, ClickVoice] (initialState_th True))"
  by (simp add: run_th_def avatarLoadFailed_def createFallbackAvatar_def startListening_th_def initialState_th_def)



subsection \<open>The speaking flag\<close>

text \<open>
  In the keyword-matching application the speaking flag is set only by \<open>speak\<close>, which only
  a test button and a recognition result call, and the utterance's \<open>onend\<close> callback clears
  it: in every reachable state in which the flag is true, the latest of these events is
  not the end of an utterance.
\<close>

lemma step_speaking_frame:
  "\<not> speakingBoundary ev \<Longrightarrow> isSpeaking (fst (step voices ev st)) = isSpeaking st"
proof (cases ev)
  case (TimerFired cb)
  then show ?thesis by (cases cb) (simp_all add: lipSyncTimeout_def animationTimeout_def)
qed (auto simp: startListening_def stopListening_def onstart_def onerror_def onend_def)

lemma run_speaking:
  "isSpeaking (run voices evs st) \<Longrightarrow>
     isSpeaking st \<or>
     (filter speakingBoundary evs \<noteq> [] \<and> last (filter speakingBoundary evs) \<noteq> UtteranceEnd)"
proof (induction evs rule: rev_induct)
  case Nil
  then show ?case by (simp add: run_Nil)
next
  case (snoc ev evs)
  show ?case
  proof (cases "speakingBoundary ev")
    case True
    with snoc.prems show ?thesis
      by (auto simp: run_snoc utterance_onend_def)
  next
    case False
    with snoc show ?thesis
      by (simp add: run_snoc step_speaking_frame)
  qed
qed

lemma speaking_only_after_speak:
  "isSpeaking (run voices evs (initialState supported)) \<Longrightarrow>
     filter speakingBoundary evs \<noteq> [] \<and> last (filter speakingBoundary evs) \<noteq> UtteranceEnd"
  using run_speaking [of voices evs "initialState supported"]
  by (simp add: initialState_def)

text \<open>
  Claim C5, at the input where the code departs from it. The test button for \<open>welcome\<close>
  queues the welcome utterance and sets the speaking flag. When the utterance fails, the
  browser raises its \<open>error\<close> event and no \<open>end\<close> event; the flag stays true, and stays true
  afterwards, since the start button and the test buttons are disabled while it is set.
  Had the utterance ended, the flag would be false. The animated-head application, speaking
  through the browser, keeps the flag in the same way.
\<close>

theorem speaking_flag_after_failed_utterance:
  "snd (step [] (ClickTest ''welcome'') (initialState True)) =
     [SetTimeout LipSyncOff 1050, SetTimeout AnimationIdle 2500,
      Speak \<lparr>utt_text = ''Welcome aboard this flight. We hope you have a pleasant journey with us today.'',
             utt_voice = None\<rparr>] \<and>
   isSpeaking (run [] [ClickTest ''welcome'', UtteranceError] (initialState True)) \<and>
   isSpeaking (run [] [ClickTest ''welcome'', UtteranceError, TimerFired LipSyncOff,
      TimerFired AnimationIdle, ClickStart, ClickTest ''safety''] (initialState True)) \<and>
   \<not> isSpeaking (run [] [ClickTest ''welcome'', UtteranceEnd] (initialState True)) \<and>
   isSpeaking_th (run_th [AvatarLoadFailed True True, ClickTest_th ''welcome'', UtteranceError_th]
      (initialState_th True))"
proof -
  have 1: "snd (step [] (ClickTest ''welcome'') (initialState True)) =
     [SetTimeout LipSyncOff 1050, SetTimeout AnimationIdle 2500,
      Speak \<lparr>utt_text = ''Welcome aboard this flight. We hope you have a pleasant journey with us today.'',
             utt_voice = None\<rparr>] \<and>
   isSpeaking (run [] [ClickTest ''welcome'', UtteranceError] (initialState True)) \<and>
   isSpeaking (run [] [ClickTest ''welcome'', UtteranceError, TimerFired LipSyncOff,
      TimerFired AnimationIdle, ClickStart, ClickTest ''safety''] (initialState True)) \<and>
   \<not> isSpeaking (run [] [ClickTest ''welcome'', UtteranceEnd] (initialState True))"
    by (simp add: run_def testCommand_def initialState_def voiceCommands_def performLipSync_def
        performAnimation_def speak_def getInstructionForCommand_def instructions_def
        lipSyncTimeout_def animationTimeout_def utterance_onend_def Let_def)
  have 2: "isSpeaking_th (run_th [AvatarLoadFailed True True, ClickTest_th ''welcome'',
      UtteranceError_th] (initialState_th True))"
    by (simp add: run_th_def avatarLoadFailed_def createFallbackAvatar_def testCommand_th_def
        executeCommand_def speak_th_def initialState_th_def voiceCommands_th_def Let_def)
  from 1 2 show ?thesis by simp
qed


subsection \<open>The breathing transform\<close>

text \<open>
  Claim C8. For every frame time \<open>t\<close>, the frame callback of \<open>FallbackAvatar\<close> sets the
  vertical scale of the mounted group to \<open>sin (t * 2) * 0.02 + 1\<close>, whatever the animation tag
  and the lip-sync flag, so the scale lies between 0.98 and 1.02; while the group is not
  mounted the callback writes nothing.
\<close>

theorem breathing_transform:
  "fallbackAvatarFrame animation lipSync t None = None \<and>
   (\<exists>tr'. fallbackAvatarFrame animation lipSync t (Some tr) = Some tr' \<and>
          scale_y tr' = sin (t * 2) * 0.02 + 1 \<and>
          0.98 \<le> scale_y tr' \<and> scale_y tr' \<le> 1.02)"
proof -
  define s where "s = sin (t * 2)"
  have "- 1 \<le> s" and "s \<le> 1"
    by (simp_all add: s_def)
  then have "0.98 \<le> s * 0.02 + 1 \<and> s * 0.02 + 1 \<le> 1.02"
    by simp
  then have "0.98 \<le> breathe t \<and> breathe t \<le> 1.02"
    by (simp add: breathe_def s_def)
  then show ?thesis
    by (simp add: fallbackAvatarFrame_def Let_def breathe_def)
qed

theorem breathing_transform_witness:
  "fallbackAvatarFrame ''alert'' True 0
     (Some \<lparr>scale_y = 1.2, rotation_x = 0, rotation_y = 0, rotation_z = 0, position_y = 0\<rparr>) =
   Some \<lparr>scale_y = 1, rotation_x = 0, rotation_y = 0, rotation_z = 0, position_y = 0\<rparr>"
  using breathing_transform [of "''alert''" True 0
    "\<lparr>scale_y = 1.2, rotation_x = 0, rotation_y = 0, rotation_z = 0, position_y = 0\<rparr>"]
  by (simp add: fallbackAvatarFrame_def Let_def breathe_def)

end
